theory Spec2Isabelle
  imports Complex_Main
begin

section \<open>Numbers\<close>

text \<open>
  The source computes with JavaScript numbers. They are modelled as real numbers: every
  statement below is about the exact arithmetic of the formulas, not about the rounding of
  IEEE doubles. \<open>Math.round\<close> rounds half up.
\<close>

definition js_round :: "real \<Rightarrow> real" where
  "js_round v = of_int \<lfloor>v + 1 / 2\<rfloor>"

section \<open>EXIF orientation (utils/exifOrientation.ts)\<close>

text \<open>The values of the enum \<open>ExifOrientation\<close>.\<close>

definition Normal :: int where "Normal = 1"
definition FlipHorizontal :: int where "FlipHorizontal = 2"
definition Rotate180 :: int where "Rotate180 = 3"
definition FlipVertical :: int where "FlipVertical = 4"
definition Rotate90FlipHorizontal :: int where "Rotate90FlipHorizontal = 5"
definition Rotate270 :: int where "Rotate270 = 6"
definition Rotate90FlipVertical :: int where "Rotate90FlipVertical = 7"
definition Rotate90 :: int where "Rotate90 = 8"

lemmas ExifOrientation_defs =
  Normal_def FlipHorizontal_def Rotate180_def FlipVertical_def
  Rotate90FlipHorizontal_def Rotate270_def Rotate90FlipVertical_def Rotate90_def

text \<open>The \<open>switch\<close> of \<open>getRotationForOrientation\<close>, case by case, in the source's order.\<close>

definition getRotationForOrientation :: "int \<Rightarrow> int" where
  "getRotationForOrientation orientation =
     (if orientation = Normal then 0
      else if orientation = FlipHorizontal then 0
      else if orientation = Rotate180 then 180
      else if orientation = FlipVertical then 0
      else if orientation = Rotate90FlipHorizontal then 90
      else if orientation = Rotate270 then - 90
      else if orientation = Rotate90FlipVertical then 90
      else if orientation = Rotate90 then 90
      else 0)"

section \<open>Rectangles and the screen\<close>

text \<open>
  \<open>ScreenCropRect\<close>, \<open>ImageCropRect\<close> and \<open>CropParams\<close> are the same shape
  \<open>{x, y, width, height}\<close>; one record serves the three. Its fields carry the prefix
  \<open>rect_\<close> so that \<open>x\<close> and \<open>y\<close> stay free for variables.
\<close>

record Rect =
  rect_x :: real
  rect_y :: real
  rect_width :: real
  rect_height :: real

type_synonym ScreenCropRect = Rect
type_synonym ImageCropRect = Rect
type_synonym CropParams = Rect

text \<open>
  \<open>Dimensions.get('window')\<close> is read once when the module loads; the window is a
  parameter of the model. \<open>EDITOR_HEIGHT\<close>, \<open>CROP_SIZE\<close>, \<open>MIN_CROP_SIZE\<close> and
  \<open>MAX_CROP_SIZE\<close> are the module constants of ImageEditorScreen.tsx.
\<close>

record Window =
  SCREEN_WIDTH :: real
  SCREEN_HEIGHT :: real

definition EDITOR_HEIGHT :: "Window \<Rightarrow> real" where
  "EDITOR_HEIGHT w = SCREEN_HEIGHT w - 120"

definition CROP_SIZE :: "Window \<Rightarrow> real" where
  "CROP_SIZE w = min (SCREEN_WIDTH w - 80) (SCREEN_HEIGHT w * (1 / 2))"

definition MIN_CROP_SIZE :: real where
  "MIN_CROP_SIZE = 100"

definition MAX_CROP_SIZE :: "Window \<Rightarrow> real" where
  "MAX_CROP_SIZE w = min (SCREEN_WIDTH w - 80) (SCREEN_HEIGHT w * (6 / 10))"

section \<open>Clamping the crop rectangle (ImageEditorScreen.tsx)\<close>

text \<open>
  \<open>clampCropToBounds\<close> reassigns its four parameters in sequence; each \<open>let\<close> below is
  one statement of the source, the primed names being the reassigned variables.
\<close>

definition clampCropToBounds :: "Window \<Rightarrow> real \<Rightarrow> real \<Rightarrow> real \<Rightarrow> real \<Rightarrow> Rect" where
  "clampCropToBounds w x y width height =
     (let width1 = max MIN_CROP_SIZE width;
          height1 = max MIN_CROP_SIZE height;
          width2 = (if x < 0 then width1 + x else width1);
          x1 = (if x < 0 then 0 else x);
          height2 = (if y < 0 then height1 + y else height1);
          y1 = (if y < 0 then 0 else y);
          width3 = (if x1 + width2 > SCREEN_WIDTH w then SCREEN_WIDTH w - x1 else width2);
          height3 = (if y1 + height2 > EDITOR_HEIGHT w then EDITOR_HEIGHT w - y1 else height2);
          width4 = max MIN_CROP_SIZE width3;
          height4 = max MIN_CROP_SIZE height3;
          x2 = (if x1 + width4 > SCREEN_WIDTH w then SCREEN_WIDTH w - width4 else x1);
          y2 = (if y1 + height4 > EDITOR_HEIGHT w then EDITOR_HEIGHT w - height4 else y1)
      in \<lparr>rect_x = x2, rect_y = y2, rect_width = width4, rect_height = height4\<rparr>)"

section \<open>Screen-to-image conversion (second module in utils/exifOrientation.ts)\<close>

record ImageDisplayParams =
  imageWidth :: real
  imageHeight :: real
  displayWidth :: real
  displayHeight :: real
  scale :: real
  translateX :: real
  translateY :: real
  rotation :: real

text \<open>
  The value returned by \<open>calculateImageDisplayBounds\<close>. In the function, \<open>cos\<close>,
  \<open>sin\<close> and \<open>pi\<close> are the exact real ones; \<open>Math.cos\<close>, \<open>Math.sin\<close> and
  \<open>Math.PI\<close> agree with them exactly at rotation 0 only (\<open>Math.sin(Math.PI)\<close> is
  about 1.2e-16, not 0), so the general statements about this function below are stated
  for rotation 0. The one concrete evaluation at 90 degrees has all its intermediate
  values far from a rounding or clamping boundary.
\<close>

record DisplayBounds =
  displayedWidth :: real
  displayedHeight :: real
  displayedX :: real
  displayedY :: real

definition calculateImageDisplayBounds :: "ImageDisplayParams \<Rightarrow> DisplayBounds" where
  "calculateImageDisplayBounds params =
     (let scaledWidth = imageWidth params * scale params;
          scaledHeight = imageHeight params * scale params;
          radians = (rotation params * pi) / 180;
          cos' = \<bar>cos radians\<bar>;
          sin' = \<bar>sin radians\<bar>;
          rotatedWidth = scaledWidth * cos' + scaledHeight * sin';
          rotatedHeight = scaledWidth * sin' + scaledHeight * cos';
          displayedX' = (displayWidth params - rotatedWidth) / 2 + translateX params;
          displayedY' = (displayHeight params - rotatedHeight) / 2 + translateY params
      in \<lparr>displayedWidth = rotatedWidth, displayedHeight = rotatedHeight,
          displayedX = displayedX', displayedY = displayedY'\<rparr>)"

text \<open>A point \<open>{x, y}\<close>: a corner of a rectangle, or a point of a drawing path.\<close>

record Point =
  pt_x :: real
  pt_y :: real

text \<open>
  The arrow function mapped over the four corners, in \<open>screenToImageCoordinates\<close> and,
  letter for letter, in \<open>calculateCropCoordinates\<close>: a rotation by \<open>radians\<close> about
  \<open>(centerX, centerY)\<close>.
\<close>

definition rotateCorner :: "real \<Rightarrow> real \<Rightarrow> real \<Rightarrow> Point \<Rightarrow> Point" where
  "rotateCorner radians centerX centerY corner =
     (let dx = pt_x corner - centerX;
          dy = pt_y corner - centerY
      in \<lparr>pt_x = centerX + dx * cos radians - dy * sin radians,
          pt_y = centerY + dx * sin radians + dy * cos radians\<rparr>)"

text \<open>
  \<open>Math.min(...vs)\<close> and \<open>Math.max(...vs)\<close>; the source applies them to the four rotated
  corners only, never to an empty array.
\<close>

definition Math_min :: "real list \<Rightarrow> real" where
  "Math_min vs = Min (set vs)"

definition Math_max :: "real list \<Rightarrow> real" where
  "Math_max vs = Max (set vs)"

text \<open>
  \<open>screenToImageCoordinates\<close>. The two constants \<open>screenToImageScaleX/Y\<close> of the source
  are computed and never read; they are left out. The function has no guard on
  \<open>scale\<close>: it divides by it as it is. (In HOL a division by zero is zero, in JavaScript
  it is an infinity or NaN, so the model says nothing about \<open>scale = 0\<close>.)
\<close>

definition screenToImageCoordinates :: "ScreenCropRect \<Rightarrow> ImageDisplayParams \<Rightarrow> ImageCropRect" where
  "screenToImageCoordinates screenCrop params =
     (let displayBounds = calculateImageDisplayBounds params;
          cropRelativeX = rect_x screenCrop - displayedX displayBounds;
          cropRelativeY = rect_y screenCrop - displayedY displayBounds;
          imageCropX = cropRelativeX / scale params;
          imageCropY = cropRelativeY / scale params;
          imageCropWidth = rect_width screenCrop / scale params;
          imageCropHeight = rect_height screenCrop / scale params;
          r = (if rotation params \<noteq> 0 then
                 (let radians = (- rotation params * pi) / 180;
                      centerX = imageWidth params / 2;
                      centerY = imageHeight params / 2;
                      corners =
                        [\<lparr>pt_x = imageCropX, pt_y = imageCropY\<rparr>,
                         \<lparr>pt_x = imageCropX + imageCropWidth, pt_y = imageCropY\<rparr>,
                         \<lparr>pt_x = imageCropX, pt_y = imageCropY + imageCropHeight\<rparr>,
                         \<lparr>pt_x = imageCropX + imageCropWidth, pt_y = imageCropY + imageCropHeight\<rparr>];
                      rotatedCorners = map (rotateCorner radians centerX centerY) corners;
                      minX = Math_min (map pt_x rotatedCorners);
                      maxX = Math_max (map pt_x rotatedCorners);
                      minY = Math_min (map pt_y rotatedCorners);
                      maxY = Math_max (map pt_y rotatedCorners)
                  in \<lparr>rect_x = minX, rect_y = minY,
                      rect_width = maxX - minX, rect_height = maxY - minY\<rparr>)
               else \<lparr>rect_x = imageCropX, rect_y = imageCropY,
                      rect_width = imageCropWidth, rect_height = imageCropHeight\<rparr>);
          imageCropX' = max 0 (min (imageWidth params - 1) (rect_x r));
          imageCropY' = max 0 (min (imageHeight params - 1) (rect_y r));
          imageCropWidth' = max 1 (min (imageWidth params - imageCropX') (rect_width r));
          imageCropHeight' = max 1 (min (imageHeight params - imageCropY') (rect_height r))
      in \<lparr>rect_x = js_round imageCropX', rect_y = js_round imageCropY',
          rect_width = js_round imageCropWidth', rect_height = js_round imageCropHeight'\<rparr>)"

definition calculateMinScale :: "real \<Rightarrow> real \<Rightarrow> real \<Rightarrow> real \<Rightarrow> real" where
  "calculateMinScale imageWidth' imageHeight' cropWidth cropHeight =
     (let scaleX = cropWidth / imageWidth';
          scaleY = cropHeight / imageHeight'
      in max scaleX scaleY)"

section \<open>The older conversion (unnamed/part_007, imported as utils/imageProcessor)\<close>

text \<open>\<open>{width, height}\<close>, the type of \<open>imageSize\<close> and \<open>displaySize\<close>.\<close>

record Size =
  size_width :: real
  size_height :: real

text \<open>\<open>TransformParams\<close>; the prefix \<open>tf_\<close> keeps its fields apart from those above.\<close>

record TransformParams =
  tf_rotation :: real
  tf_scale :: real
  tf_translateX :: real
  tf_translateY :: real

definition calculateCropCoordinates :: "Size \<Rightarrow> Size \<Rightarrow> CropParams \<Rightarrow> TransformParams \<Rightarrow> CropParams" where
  "calculateCropCoordinates imageSize displaySize cropArea transform =
     (let scaledWidth = size_width imageSize * tf_scale transform;
          scaledHeight = size_height imageSize * tf_scale transform;
          imageDisplayX = (size_width displaySize - scaledWidth) / 2 + tf_translateX transform;
          imageDisplayY = (size_height displaySize - scaledHeight) / 2 + tf_translateY transform;
          cropX = (rect_x cropArea - imageDisplayX) / tf_scale transform;
          cropY = (rect_y cropArea - imageDisplayY) / tf_scale transform;
          cropWidth = rect_width cropArea / tf_scale transform;
          cropHeight = rect_height cropArea / tf_scale transform;
          r = (if tf_rotation transform \<noteq> 0 then
                 (let centerX = size_width imageSize / 2;
                      centerY = size_height imageSize / 2;
                      radians = (- tf_rotation transform * pi) / 180;
                      corners =
                        [\<lparr>pt_x = cropX, pt_y = cropY\<rparr>,
                         \<lparr>pt_x = cropX + cropWidth, pt_y = cropY\<rparr>,
                         \<lparr>pt_x = cropX, pt_y = cropY + cropHeight\<rparr>,
                         \<lparr>pt_x = cropX + cropWidth, pt_y = cropY + cropHeight\<rparr>];
                      rotatedCorners = map (rotateCorner radians centerX centerY) corners;
                      minX = Math_min (map pt_x rotatedCorners);
                      maxX = Math_max (map pt_x rotatedCorners);
                      minY = Math_min (map pt_y rotatedCorners);
                      maxY = Math_max (map pt_y rotatedCorners)
                  in \<lparr>rect_x = minX, rect_y = minY,
                      rect_width = maxX - minX, rect_height = maxY - minY\<rparr>)
               else \<lparr>rect_x = cropX, rect_y = cropY,
                      rect_width = cropWidth, rect_height = cropHeight\<rparr>);
          cropX' = max 0 (min (size_width imageSize - 1) (rect_x r));
          cropY' = max 0 (min (size_height imageSize - 1) (rect_y r));
          cropWidth' = max 1 (min (size_width imageSize - cropX') (rect_width r));
          cropHeight' = max 1 (min (size_height imageSize - cropY') (rect_height r))
      in \<lparr>rect_x = js_round cropX', rect_y = js_round cropY',
          rect_width = js_round cropWidth', rect_height = js_round cropHeight'\<rparr>)"

text \<open>
  The common input of the two conversions: the \<open>ImageDisplayParams\<close> that carry the same
  image size, display size and transform as the four arguments of
  \<open>calculateCropCoordinates\<close>.
\<close>

definition paramsOf :: "Size \<Rightarrow> Size \<Rightarrow> TransformParams \<Rightarrow> ImageDisplayParams" where
  "paramsOf imageSize displaySize transform =
     \<lparr>imageWidth = size_width imageSize, imageHeight = size_height imageSize,
      displayWidth = size_width displaySize, displayHeight = size_height displaySize,
      scale = tf_scale transform, translateX = tf_translateX transform,
      translateY = tf_translateY transform, rotation = tf_rotation transform\<rparr>"

section \<open>Undo and redo (second module in utils/nativeImageCrop.ts, imported as utils/undoRedo)\<close>

record DrawingPath =
  dp_id :: string
  dp_points :: "Point list"
  dp_color :: string
  dp_strokeWidth :: real

text \<open>\<open>fontFamily\<close>, \<open>rotation\<close> and \<open>scale\<close> are optional fields of \<open>TextSticker\<close>.\<close>

record TextSticker =
  ts_id :: string
  ts_text :: string
  ts_x :: real
  ts_y :: real
  ts_fontSize :: real
  ts_color :: string
  ts_fontFamily :: "string option"
  ts_rotation :: "real option"
  ts_scale :: "real option"

text \<open>The snapshot type \<open>EditorState\<close>; its fields carry the prefix \<open>es_\<close>.\<close>

record EditorState =
  es_rotation :: real
  es_scale :: real
  es_translateX :: real
  es_translateY :: real
  es_cropWidth :: real
  es_cropHeight :: real
  es_brightness :: real
  es_contrast :: real
  es_saturation :: real
  es_drawings :: "DrawingPath list"
  es_textStickers :: "TextSticker list"

text \<open>
  The class \<open>UndoRedoStack\<close>. A JavaScript array grows at its end: \<open>push\<close> appends,
  \<open>pop\<close> removes the last element, \<open>shift\<close> the first.
\<close>

record UndoRedoStack =
  undoStack :: "EditorState list"
  redoStack :: "EditorState list"
  maxStackSize :: int

definition newUndoRedoStack :: "int \<Rightarrow> UndoRedoStack" where
  "newUndoRedoStack m = \<lparr>undoStack = [], redoStack = [], maxStackSize = m\<rparr>"

definition cloneState :: "EditorState \<Rightarrow> EditorState" where
  "cloneState state =
     \<lparr>es_rotation = es_rotation state,
      es_scale = es_scale state,
      es_translateX = es_translateX state,
      es_translateY = es_translateY state,
      es_cropWidth = es_cropWidth state,
      es_cropHeight = es_cropHeight state,
      es_brightness = es_brightness state,
      es_contrast = es_contrast state,
      es_saturation = es_saturation state,
      es_drawings = map (\<lambda>d. d\<lparr>dp_points := map (\<lambda>p. p) (dp_points d)\<rparr>) (es_drawings state),
      es_textStickers = map (\<lambda>s. s) (es_textStickers state)\<rparr>"

definition saveState :: "EditorState \<Rightarrow> UndoRedoStack \<Rightarrow> UndoRedoStack" where
  "saveState state stk =
     (let clonedState = cloneState state;
          pushed = undoStack stk @ [clonedState];
          limited = (if int (length pushed) > maxStackSize stk then tl pushed else pushed)
      in stk\<lparr>undoStack := limited, redoStack := []\<rparr>)"

text \<open>
  \<open>undo\<close> and \<open>redo\<close> return the restored state, or \<open>null\<close> (here \<open>None\<close>), and the
  stack as they leave it.
\<close>

definition undo :: "EditorState \<Rightarrow> UndoRedoStack \<Rightarrow> EditorState option \<times> UndoRedoStack" where
  "undo currentState stk =
     (if length (undoStack stk) = 0 then (None, stk)
      else
        (let redo' = redoStack stk @ [cloneState currentState];
             previousState = last (undoStack stk)
         in (Some previousState,
             stk\<lparr>redoStack := redo', undoStack := butlast (undoStack stk)\<rparr>)))"

definition redo :: "EditorState \<Rightarrow> UndoRedoStack \<Rightarrow> EditorState option \<times> UndoRedoStack" where
  "redo currentState stk =
     (if length (redoStack stk) = 0 then (None, stk)
      else
        (let undo' = undoStack stk @ [cloneState currentState];
             nextState = last (redoStack stk)
         in (Some nextState,
             stk\<lparr>undoStack := undo', redoStack := butlast (redoStack stk)\<rparr>)))"

definition clear :: "UndoRedoStack \<Rightarrow> UndoRedoStack" where
  "clear stk = stk\<lparr>undoStack := [], redoStack := []\<rparr>"

section \<open>The editor component (screens/ImageEditorScreen.tsx)\<close>

datatype CropAspectRatio = AR_free | AR_1_1 | AR_4_5 | AR_16_9

text \<open>\<open>CropHandle\<close> is one of the four corners or \<open>null\<close>; \<open>null\<close> is \<open>None\<close>.\<close>

datatype CropHandle = topLeft | topRight | bottomLeft | bottomRight

datatype EditorMode = crop | adjust | draw | text_mode

text \<open>
  The state of the component: its \<open>useState\<close> cells, its shared values and its refs, in
  the order of their declaration, with the prefix \<open>ed_\<close>. A shared value holds its
  logical value; \<open>withSpring\<close> and \<open>withTiming\<close> animate towards the value assigned.
\<close>

record Editor =
  ed_imageUri :: "string option"
  ed_originalImageUri :: "string option"
  ed_imageSize :: Size
  ed_previewSize :: Size
  ed_previewScale :: real
  ed_rotation :: real
  ed_aspectRatio :: CropAspectRatio
  ed_brightness :: real
  ed_contrast :: real
  ed_saturation :: real
  ed_mode :: EditorMode
  ed_activeHandle :: "CropHandle option"
  ed_drawings :: "DrawingPath list"
  ed_drawColor :: string
  ed_drawStrokeWidth :: real
  ed_textStickers :: "TextSticker list"
  ed_selectedStickerId :: "string option"
  ed_exifOrientation :: int
  ed_undoRedoStack :: UndoRedoStack
  ed_scale :: real
  ed_translateX :: real
  ed_translateY :: real
  ed_rotationValue :: real
  ed_baseScale :: real
  ed_baseTranslateX :: real
  ed_baseTranslateY :: real
  ed_isAnimating :: bool
  ed_cropX :: real
  ed_cropY :: real
  ed_cropWidth :: real
  ed_cropHeight :: real
  ed_baseCropX :: real
  ed_baseCropY :: real
  ed_baseCropWidth :: real
  ed_baseCropHeight :: real
  ed_initialCropWidth :: real
  ed_initialCropHeight :: real
  ed_initialScale :: real
  ed_initialTranslateX :: real
  ed_initialTranslateY :: real

text \<open>The initial values of the hooks, for a window \<open>w\<close>.\<close>

definition initialEditor :: "Window \<Rightarrow> Editor" where
  "initialEditor w =
     \<lparr>ed_imageUri = None,
      ed_originalImageUri = None,
      ed_imageSize = \<lparr>size_width = 0, size_height = 0\<rparr>,
      ed_previewSize = \<lparr>size_width = 0, size_height = 0\<rparr>,
      ed_previewScale = 1,
      ed_rotation = 0,
      ed_aspectRatio = AR_free,
      ed_brightness = 0,
      ed_contrast = 0,
      ed_saturation = 0,
      ed_mode = crop,
      ed_activeHandle = None,
      ed_drawings = [],
      ed_drawColor = ''#FF0000'',
      ed_drawStrokeWidth = 5,
      ed_textStickers = [],
      ed_selectedStickerId = None,
      ed_exifOrientation = 1,
      ed_undoRedoStack = newUndoRedoStack 50,
      ed_scale = 1,
      ed_translateX = 0,
      ed_translateY = 0,
      ed_rotationValue = 0,
      ed_baseScale = 1,
      ed_baseTranslateX = 0,
      ed_baseTranslateY = 0,
      ed_isAnimating = False,
      ed_cropX = (SCREEN_WIDTH w - CROP_SIZE w) / 2,
      ed_cropY = (EDITOR_HEIGHT w - CROP_SIZE w) / 2,
      ed_cropWidth = CROP_SIZE w,
      ed_cropHeight = CROP_SIZE w,
      ed_baseCropX = (SCREEN_WIDTH w - CROP_SIZE w) / 2,
      ed_baseCropY = (EDITOR_HEIGHT w - CROP_SIZE w) / 2,
      ed_baseCropWidth = CROP_SIZE w,
      ed_baseCropHeight = CROP_SIZE w,
      ed_initialCropWidth = CROP_SIZE w,
      ed_initialCropHeight = CROP_SIZE w,
      ed_initialScale = 1,
      ed_initialTranslateX = 0,
      ed_initialTranslateY = 0\<rparr>"

text \<open>
  The state after \<open>loadImage\<close> has run to its end without an error: \<open>getImageDimensions\<close>
  answered \<open>originalWidth\<close> by \<open>originalHeight\<close> and the EXIF callback reported
  \<open>orient\<close>.
\<close>

definition loadImage :: "Window \<Rightarrow> string \<Rightarrow> real \<Rightarrow> real \<Rightarrow> int \<Rightarrow> Editor \<Rightarrow> Editor" where
  "loadImage w uri originalWidth originalHeight orient ed =
     (let rotationFromExif = real_of_int (getRotationForOrientation orient);
          scaleToFit = min (CROP_SIZE w / originalWidth) (CROP_SIZE w / originalHeight)
      in ed\<lparr>ed_originalImageUri := Some uri,
             ed_imageSize := \<lparr>size_width = originalWidth, size_height = originalHeight\<rparr>,
             ed_previewSize := \<lparr>size_width = originalWidth, size_height = originalHeight\<rparr>,
             ed_previewScale := 1,
             ed_imageUri := Some uri,
             ed_exifOrientation := orient,
             ed_rotation := (if rotationFromExif \<noteq> 0 then rotationFromExif else ed_rotation ed),
             ed_rotationValue :=
               (if rotationFromExif \<noteq> 0 then rotationFromExif else ed_rotationValue ed),
             ed_cropWidth := CROP_SIZE w,
             ed_cropHeight := CROP_SIZE w,
             ed_initialCropWidth := CROP_SIZE w,
             ed_initialCropHeight := CROP_SIZE w,
             ed_scale := scaleToFit,
             ed_baseScale := scaleToFit,
             ed_initialScale := scaleToFit\<rparr>)"

subsection \<open>Undo and redo of the editor\<close>

definition getCurrentEditorState :: "Editor \<Rightarrow> EditorState" where
  "getCurrentEditorState ed =
     \<lparr>es_rotation = ed_rotation ed,
      es_scale = ed_scale ed,
      es_translateX = ed_translateX ed,
      es_translateY = ed_translateY ed,
      es_cropWidth = ed_cropWidth ed,
      es_cropHeight = ed_cropHeight ed,
      es_brightness = ed_brightness ed,
      es_contrast = ed_contrast ed,
      es_saturation = ed_saturation ed,
      es_drawings = ed_drawings ed,
      es_textStickers = ed_textStickers ed\<rparr>"

definition applyEditorState :: "EditorState \<Rightarrow> Editor \<Rightarrow> Editor" where
  "applyEditorState state ed =
     ed\<lparr>ed_rotation := es_rotation state,
        ed_brightness := es_brightness state,
        ed_contrast := es_contrast state,
        ed_saturation := es_saturation state,
        ed_drawings := es_drawings state,
        ed_textStickers := es_textStickers state,
        ed_scale := es_scale state,
        ed_translateX := es_translateX state,
        ed_translateY := es_translateY state,
        ed_rotationValue := es_rotation state,
        ed_cropWidth := es_cropWidth state,
        ed_cropHeight := es_cropHeight state\<rparr>"

definition saveStateBeforeAction :: "Editor \<Rightarrow> Editor" where
  "saveStateBeforeAction ed =
     (let currentState = getCurrentEditorState ed
      in ed\<lparr>ed_undoRedoStack := saveState currentState (ed_undoRedoStack ed)\<rparr>)"

definition handleUndo :: "Editor \<Rightarrow> Editor" where
  "handleUndo ed =
     (let currentState = getCurrentEditorState ed;
          (previousState, stk) = undo currentState (ed_undoRedoStack ed);
          ed1 = ed\<lparr>ed_undoRedoStack := stk\<rparr>
      in case previousState of None \<Rightarrow> ed1 | Some st \<Rightarrow> applyEditorState st ed1)"

definition handleRedo :: "Editor \<Rightarrow> Editor" where
  "handleRedo ed =
     (let currentState = getCurrentEditorState ed;
          (nextState, stk) = redo currentState (ed_undoRedoStack ed);
          ed1 = ed\<lparr>ed_undoRedoStack := stk\<rparr>
      in case nextState of None \<Rightarrow> ed1 | Some st \<Rightarrow> applyEditorState st ed1)"

subsection \<open>Pan and pinch\<close>

definition panOnStart :: "Editor \<Rightarrow> Editor" where
  "panOnStart ed =
     ed\<lparr>ed_baseTranslateX := ed_translateX ed, ed_baseTranslateY := ed_translateY ed\<rparr>"

definition panOnUpdate :: "real \<Rightarrow> real \<Rightarrow> Editor \<Rightarrow> Editor" where
  "panOnUpdate translationX translationY ed =
     ed\<lparr>ed_translateX := ed_baseTranslateX ed + translationX,
        ed_translateY := ed_baseTranslateY ed + translationY\<rparr>"

text \<open>
  \<open>onEnd\<close> starts a spring towards the value already held; the callback that clears
  \<open>isAnimating\<close> runs when the spring has settled.
\<close>

definition panOnEnd :: "Editor \<Rightarrow> Editor" where
  "panOnEnd ed =
     ed\<lparr>ed_baseTranslateX := ed_translateX ed, ed_baseTranslateY := ed_translateY ed,
        ed_isAnimating := True\<rparr>"

definition pinchOnStart :: "Editor \<Rightarrow> Editor" where
  "pinchOnStart ed = ed\<lparr>ed_baseScale := ed_scale ed\<rparr>"

definition pinchOnUpdate :: "real \<Rightarrow> Editor \<Rightarrow> Editor" where
  "pinchOnUpdate e_scale ed =
     (let newScale = ed_baseScale ed * e_scale;
          minScale = max (ed_cropWidth ed / size_width (ed_imageSize ed))
                         (ed_cropHeight ed / size_height (ed_imageSize ed))
      in ed\<lparr>ed_scale := max minScale (min newScale 3)\<rparr>)"

definition pinchOnEnd :: "Editor \<Rightarrow> Editor" where
  "pinchOnEnd ed = ed\<lparr>ed_baseScale := ed_scale ed, ed_isAnimating := True\<rparr>"

definition animationSettled :: "Editor \<Rightarrow> Editor" where
  "animationSettled ed = ed\<lparr>ed_isAnimating := False\<rparr>"

subsection \<open>Corner resize\<close>

definition targetAspectOf :: "CropAspectRatio \<Rightarrow> real" where
  "targetAspectOf aspectRatio =
     (if aspectRatio = AR_1_1 then 1
      else if aspectRatio = AR_4_5 then 4 / 5
      else if aspectRatio = AR_16_9 then 16 / 9
      else 1)"

text \<open>
  The body of \<open>onUpdate\<close> up to, and without, the call of \<open>clampCropToBounds\<close>: the
  rectangle \<open>(newX, newY, newWidth, newHeight)\<close> computed from the base rectangle, the
  handle and the drag. \<open>dragged\<close> is the value of the four variables after the
  \<open>switch\<close>.
\<close>

definition cornerResize :: "CropHandle \<Rightarrow> CropAspectRatio \<Rightarrow> Rect \<Rightarrow> real \<Rightarrow> real \<Rightarrow> Rect" where
  "cornerResize handle aspectRatio base deltaX deltaY =
     (let dragged =
            (case handle of
               topLeft \<Rightarrow>
                 \<lparr>rect_x = rect_x base + deltaX, rect_y = rect_y base + deltaY,
                  rect_width = rect_width base - deltaX, rect_height = rect_height base - deltaY\<rparr>
             | topRight \<Rightarrow>
                 \<lparr>rect_x = rect_x base, rect_y = rect_y base + deltaY,
                  rect_width = rect_width base + deltaX, rect_height = rect_height base - deltaY\<rparr>
             | bottomLeft \<Rightarrow>
                 \<lparr>rect_x = rect_x base + deltaX, rect_y = rect_y base,
                  rect_width = rect_width base - deltaX, rect_height = rect_height base + deltaY\<rparr>
             | bottomRight \<Rightarrow>
                 \<lparr>rect_x = rect_x base, rect_y = rect_y base,
                  rect_width = rect_width base + deltaX, rect_height = rect_height base + deltaY\<rparr>)
      in if aspectRatio \<noteq> AR_free then
           (let targetAspect = targetAspectOf aspectRatio;
                absDeltaX = \<bar>deltaX\<bar>;
                absDeltaY = \<bar>deltaY\<bar>;
                fixedCornerX = (if handle = topLeft \<or> handle = bottomLeft
                                then rect_x base + rect_width base else rect_x base);
                fixedCornerY = (if handle = topLeft \<or> handle = topRight
                                then rect_y base + rect_height base else rect_y base)
            in if absDeltaX > absDeltaY then
                 (let newWidth = rect_width dragged;
                      newHeight = newWidth / targetAspect;
                      newX = (if handle = topLeft \<or> handle = bottomLeft
                              then fixedCornerX - newWidth else rect_x base);
                      newY = (if handle = topLeft \<or> handle = topRight
                              then fixedCornerY - newHeight else rect_y base)
                  in \<lparr>rect_x = newX, rect_y = newY,
                      rect_width = newWidth, rect_height = newHeight\<rparr>)
               else
                 (let newHeight = rect_height dragged;
                      newWidth = newHeight * targetAspect;
                      newX = (if handle = topLeft \<or> handle = bottomLeft
                              then fixedCornerX - newWidth else rect_x base);
                      newY = (if handle = topLeft \<or> handle = topRight
                              then fixedCornerY - newHeight else rect_y base)
                  in \<lparr>rect_x = newX, rect_y = newY,
                      rect_width = newWidth, rect_height = newHeight\<rparr>))
         else dragged)"

definition baseCropRect :: "Editor \<Rightarrow> Rect" where
  "baseCropRect ed =
     \<lparr>rect_x = ed_baseCropX ed, rect_y = ed_baseCropY ed,
      rect_width = ed_baseCropWidth ed, rect_height = ed_baseCropHeight ed\<rparr>"

definition cropRect :: "Editor \<Rightarrow> Rect" where
  "cropRect ed =
     \<lparr>rect_x = ed_cropX ed, rect_y = ed_cropY ed,
      rect_width = ed_cropWidth ed, rect_height = ed_cropHeight ed\<rparr>"

definition cornerOnStart :: "CropHandle option \<Rightarrow> Editor \<Rightarrow> Editor" where
  "cornerOnStart handle ed =
     ed\<lparr>ed_baseCropX := ed_cropX ed,
        ed_baseCropY := ed_cropY ed,
        ed_baseCropWidth := ed_cropWidth ed,
        ed_baseCropHeight := ed_cropHeight ed,
        ed_activeHandle := handle\<rparr>"

definition cornerOnUpdate :: "Window \<Rightarrow> CropHandle option \<Rightarrow> real \<Rightarrow> real \<Rightarrow> Editor \<Rightarrow> Editor" where
  "cornerOnUpdate w handle translationX translationY ed =
     (case handle of
        None \<Rightarrow> ed
      | Some h \<Rightarrow>
          (let r = cornerResize h (ed_aspectRatio ed) (baseCropRect ed) translationX translationY;
               clamped = clampCropToBounds w (rect_x r) (rect_y r) (rect_width r) (rect_height r)
           in ed\<lparr>ed_cropX := rect_x clamped,
                  ed_cropY := rect_y clamped,
                  ed_cropWidth := rect_width clamped,
                  ed_cropHeight := rect_height clamped\<rparr>))"

definition cornerOnEnd :: "Editor \<Rightarrow> Editor" where
  "cornerOnEnd ed =
     ed\<lparr>ed_baseCropX := ed_cropX ed,
        ed_baseCropY := ed_cropY ed,
        ed_baseCropWidth := ed_cropWidth ed,
        ed_baseCropHeight := ed_cropHeight ed,
        ed_activeHandle := None\<rparr>"

text \<open>
  One gesture session of a corner handle: \<open>onStart\<close>, the updates in the order of their
  delivery (each carries the translation since the start), \<open>onEnd\<close>.
\<close>

definition cornerSession :: "Window \<Rightarrow> CropHandle option \<Rightarrow> (real \<times> real) list \<Rightarrow> Editor \<Rightarrow> Editor" where
  "cornerSession w handle deltas ed =
     cornerOnEnd (foldl (\<lambda>e (dx, dy). cornerOnUpdate w handle dx dy e) (cornerOnStart handle ed) deltas)"

text \<open>The corner diagonally opposite a handle, as a point of a rectangle.\<close>

definition oppositeCorner :: "CropHandle \<Rightarrow> Rect \<Rightarrow> Point" where
  "oppositeCorner handle r =
     \<lparr>pt_x = (if handle = topLeft \<or> handle = bottomLeft then rect_x r + rect_width r else rect_x r),
      pt_y = (if handle = topLeft \<or> handle = topRight then rect_y r + rect_height r else rect_y r)\<rparr>"

subsection \<open>Gesture callbacks as events\<close>

datatype GestureEvent =
    PanStart | PanUpdate real real | PanEnd
  | PinchStart | PinchUpdate real | PinchEnd
  | CornerStart "CropHandle option" | CornerUpdate "CropHandle option" real real | CornerEnd
  | AnimationSettled

fun gestureStep :: "Window \<Rightarrow> Editor \<Rightarrow> GestureEvent \<Rightarrow> Editor" where
  "gestureStep w ed PanStart = panOnStart ed"
| "gestureStep w ed (PanUpdate tx ty) = panOnUpdate tx ty ed"
| "gestureStep w ed PanEnd = panOnEnd ed"
| "gestureStep w ed PinchStart = pinchOnStart ed"
| "gestureStep w ed (PinchUpdate s) = pinchOnUpdate s ed"
| "gestureStep w ed PinchEnd = pinchOnEnd ed"
| "gestureStep w ed (CornerStart h) = cornerOnStart h ed"
| "gestureStep w ed (CornerUpdate h tx ty) = cornerOnUpdate w h tx ty ed"
| "gestureStep w ed CornerEnd = cornerOnEnd ed"
| "gestureStep w ed AnimationSettled = animationSettled ed"

definition gestureRun :: "Window \<Rightarrow> Editor \<Rightarrow> GestureEvent list \<Rightarrow> Editor" where
  "gestureRun w ed evs = foldl (gestureStep w) ed evs"

subsection \<open>Saving\<close>

text \<open>JavaScript's \<open>%\<close>: the remainder has the sign of the dividend.\<close>

definition js_rem :: "real \<Rightarrow> real \<Rightarrow> real" where
  "js_rem a b = a - b * of_int (if 0 \<le> a / b then \<lfloor>a / b\<rfloor> else \<lceil>a / b\<rceil>)"

text \<open>The \<open>editMetadata\<close> that \<open>handleSave\<close> builds, and the \<open>MediaFile\<close> around it.\<close>

record EditMetadata =
  md_rotation :: real
  md_scale :: real
  md_translateX :: real
  md_translateY :: real
  md_crop :: Rect
  md_aspectRatio :: CropAspectRatio
  md_brightness :: real
  md_contrast :: real
  md_saturation :: real
  md_drawings :: "DrawingPath list option"
  md_textStickers :: "TextSticker list option"
  md_exifOrientation :: int

record MediaFile =
  mf_uri :: string
  mf_name :: string
  mf_type :: string
  mf_size :: real
  mf_editMetadata :: EditMetadata

text \<open>
  What the platform answers during one run of \<open>handleSave\<close>: whether the ViewShot ref is
  set, the result of \<open>capture\<close>, of \<open>RNFS.exists\<close>, \<open>mkdir\<close>, \<open>moveFile\<close> and
  \<open>stat\<close> (\<open>None\<close> or \<open>False\<close>: the call throws), the documents directory, and the
  file name that \<open>generateEditedImageFileName\<close> returns.
\<close>

record SaveEnv =
  env_viewShotRef :: bool
  env_capture :: "string option"
  env_DocumentDirectoryPath :: string
  env_exists :: "bool option"
  env_mkdir :: bool
  env_moveFile :: bool
  env_stat :: "real option"
  env_outputFileName :: string

text \<open>
  The three ways \<open>handleSave\<close> ends: the early \<open>return\<close> of its first line, \<open>onSave(media)\<close>
  followed by \<open>handleClose()\<close>, and the \<open>catch\<close> block with its alert "Failed to save
  edited image. Please try again.".
\<close>

datatype SaveOutcome = NotStarted | Saved MediaFile | FailedToSave

definition handleSave :: "SaveEnv \<Rightarrow> Editor \<Rightarrow> SaveOutcome" where
  "handleSave env ed =
     (if ed_imageUri ed = None \<or> ed_imageUri ed = Some [] \<or>
         ed_originalImageUri ed = None \<or> ed_originalImageUri ed = Some [] \<or>
         size_width (ed_imageSize ed) = 0 \<or> size_height (ed_imageSize ed) = 0
      then NotStarted
      else
        (let normalizedRotation = js_rem (js_rem (ed_rotation ed) 360 + 360) 360;
             currentScale = ed_scale ed;
             currentTranslateX = ed_translateX ed;
             currentTranslateY = ed_translateY ed;
             currentCropX = ed_cropX ed;
             currentCropY = ed_cropY ed;
             currentCropWidth = ed_cropWidth ed;
             currentCropHeight = ed_cropHeight ed;
             outputFileName = env_outputFileName env
         in if \<not> env_viewShotRef env then FailedToSave
            else
              (case env_capture env of
                 None \<Rightarrow> FailedToSave
               | Some capturedUri \<Rightarrow>
                   if capturedUri = [] then FailedToSave
                   else
                     (let imagesEditedDir = env_DocumentDirectoryPath env @ ''/images/edited''
                      in case env_exists env of
                           None \<Rightarrow> FailedToSave
                         | Some dirExists \<Rightarrow>
                             if \<not> dirExists \<and> \<not> env_mkdir env then FailedToSave
                             else if \<not> env_moveFile env then FailedToSave
                             else
                               (let finalPath = imagesEditedDir @ ''/'' @ outputFileName
                                in case env_stat env of
                                     None \<Rightarrow> FailedToSave
                                   | Some stats_size \<Rightarrow>
                                       Saved
                                         \<lparr>mf_uri = ''file://'' @ finalPath,
                                          mf_name = outputFileName,
                                          mf_type = ''image/jpeg'',
                                          mf_size = stats_size,
                                          mf_editMetadata =
                                            \<lparr>md_rotation = normalizedRotation,
                                             md_scale = currentScale,
                                             md_translateX = currentTranslateX,
                                             md_translateY = currentTranslateY,
                                             md_crop =
                                               \<lparr>rect_x = currentCropX, rect_y = currentCropY,
                                                rect_width = currentCropWidth,
                                                rect_height = currentCropHeight\<rparr>,
                                             md_aspectRatio = ed_aspectRatio ed,
                                             md_brightness = ed_brightness ed,
                                             md_contrast = ed_contrast ed,
                                             md_saturation = ed_saturation ed,
                                             md_drawings =
                                               (if length (ed_drawings ed) > 0
                                                then Some (ed_drawings ed) else None),
                                             md_textStickers =
                                               (if length (ed_textStickers ed) > 0
                                                then Some (ed_textStickers ed) else None),
                                             md_exifOrientation = ed_exifOrientation ed\<rparr>\<rparr>)))))"

section \<open>Auxiliary notions for the statements\<close>

text \<open>
  The two axes of \<open>clampCropToBounds\<close> do not interact: on each axis the function is the
  following clamp of a position and an extent against a limit.
\<close>

definition clamp_axis :: "real \<Rightarrow> real \<Rightarrow> real \<Rightarrow> real \<times> real" where
  "clamp_axis limit p e =
     (let e1 = max MIN_CROP_SIZE e;
          e2 = (if p < 0 then e1 + p else e1);
          p1 = (if p < 0 then 0 else p);
          e3 = (if p1 + e2 > limit then limit - p1 else e2);
          e4 = max MIN_CROP_SIZE e3;
          p2 = (if p1 + e4 > limit then limit - e4 else p1)
      in (p2, e4))"

text \<open>
  The screen rectangle that coincides with the displayed image: position and size as
  \<open>calculateImageDisplayBounds\<close> returns them.
\<close>

definition displayedRect :: "ImageDisplayParams \<Rightarrow> ScreenCropRect" where
  "displayedRect p =
     (let b = calculateImageDisplayBounds p
      in \<lparr>rect_x = displayedX b, rect_y = displayedY b,
          rect_width = displayedWidth b, rect_height = displayedHeight b\<rparr>)"

text \<open>Concrete inputs for the examples: a 400 by 800 window and two snapshots.\<close>

definition exampleWindow :: Window where
  "exampleWindow = \<lparr>SCREEN_WIDTH = 400, SCREEN_HEIGHT = 800\<rparr>"

definition exampleSnapshot0 :: EditorState where
  "exampleSnapshot0 =
     \<lparr>es_rotation = 0, es_scale = 1, es_translateX = 0, es_translateY = 0,
      es_cropWidth = 320, es_cropHeight = 320,
      es_brightness = 0, es_contrast = 0, es_saturation = 0,
      es_drawings = [], es_textStickers = []\<rparr>"

definition exampleSnapshot1 :: EditorState where
  "exampleSnapshot1 =
     \<lparr>es_rotation = 90, es_scale = 2, es_translateX = 50, es_translateY = - 30,
      es_cropWidth = 200, es_cropHeight = 250,
      es_brightness = 10, es_contrast = 0, es_saturation = - 5,
      es_drawings =
        [\<lparr>dp_id = ''path_1'', dp_points = [\<lparr>pt_x = 1, pt_y = 2\<rparr>, \<lparr>pt_x = 3, pt_y = 4\<rparr>],
          dp_color = ''#FF0000'', dp_strokeWidth = 5\<rparr>],
      es_textStickers = []\<rparr>"

text \<open>
  The editor after a 1000 by 800 image has loaded in the example window, and after a 50 by
  50 image has; both without EXIF rotation (\<open>getExifOrientation\<close> always answers 1).
\<close>

definition exampleEditor :: Editor where
  "exampleEditor =
     loadImage exampleWindow ''file:///photos/cat.jpg'' 1000 800 1 (initialEditor exampleWindow)"

definition smallImageEditor :: Editor where
  "smallImageEditor =
     loadImage exampleWindow ''file:///photos/icon.png'' 50 50 1 (initialEditor exampleWindow)"

text \<open>A platform on which every step of a save succeeds.\<close>

definition exampleSaveEnv :: SaveEnv where
  "exampleSaveEnv =
     \<lparr>env_viewShotRef = True, env_capture = Some ''/tmp/capture.jpg'',
      env_DocumentDirectoryPath = ''/data/files'', env_exists = Some True, env_mkdir = True,
      env_moveFile = True, env_stat = Some 2048, env_outputFileName = ''edited_1_cat.jpg''\<rparr>"

text \<open>
  The minimum scale of an editor state: \<open>calculateMinScale\<close> of the original image
  dimensions and the size the crop rectangle has in that state.
\<close>

definition minScaleOf :: "Editor \<Rightarrow> real" where
  "minScaleOf ed =
     calculateMinScale (size_width (ed_imageSize ed)) (size_height (ed_imageSize ed))
       (ed_cropWidth ed) (ed_cropHeight ed)"

section \<open>Properties: the clamp of the crop rectangle\<close>

lemma clampCropToBounds_axes:
  "clampCropToBounds w x y width height =
     \<lparr>rect_x = fst (clamp_axis (SCREEN_WIDTH w) x width),
      rect_y = fst (clamp_axis (EDITOR_HEIGHT w) y height),
      rect_width = snd (clamp_axis (SCREEN_WIDTH w) x width),
      rect_height = snd (clamp_axis (EDITOR_HEIGHT w) y height)\<rparr>"
  by (simp add: clampCropToBounds_def clamp_axis_def Let_def)

lemma clamp_axis_idem:
  "clamp_axis limit (fst (clamp_axis limit p e)) (snd (clamp_axis limit p e)) =
     clamp_axis limit p e"
  by (simp add: clamp_axis_def Let_def MIN_CROP_SIZE_def max_def)

text \<open>
  C7. \<open>clampCropToBounds\<close> is idempotent: applied to the rectangle it returned, it returns
  that rectangle, for every input rectangle and every window (also one narrower than the
  minimum crop size).
\<close>

theorem clampCropToBounds_idempotent:
  "clampCropToBounds w
     (rect_x (clampCropToBounds w x y width height))
     (rect_y (clampCropToBounds w x y width height))
     (rect_width (clampCropToBounds w x y width height))
     (rect_height (clampCropToBounds w x y width height))
   = clampCropToBounds w x y width height"
  by (simp add: clampCropToBounds_axes clamp_axis_idem)

theorem clampCropToBounds_idempotent_witness:
  "clampCropToBounds exampleWindow
     (rect_x (clampCropToBounds exampleWindow 350 (- 20) 30 900))
     (rect_y (clampCropToBounds exampleWindow 350 (- 20) 30 900))
     (rect_width (clampCropToBounds exampleWindow 350 (- 20) 30 900))
     (rect_height (clampCropToBounds exampleWindow 350 (- 20) 30 900))
   = clampCropToBounds exampleWindow 350 (- 20) 30 900
   \<and> clampCropToBounds exampleWindow 350 (- 20) 30 900 =
       \<lparr>rect_x = 300, rect_y = 0, rect_width = 100, rect_height = 680\<rparr>"
  using clampCropToBounds_idempotent [of exampleWindow 350 "- 20" 30 900]
  by (simp add: clampCropToBounds_def exampleWindow_def EDITOR_HEIGHT_def MIN_CROP_SIZE_def Let_def)

section \<open>Properties: EXIF orientation\<close>




section \<open>Properties: undo and redo\<close>

lemma cloneState_id: "cloneState s = s"
  by (simp add: cloneState_def)

lemma saveState_top:
  assumes "0 < maxStackSize stk"
  shows "undoStack (saveState s stk) \<noteq> [] \<and> last (undoStack (saveState s stk)) = s"
proof (cases "undoStack stk")
  case Nil
  with assms show ?thesis
    by (simp add: saveState_def Let_def cloneState_id)
next
  case (Cons a as)
  then show ?thesis
    by (simp add: saveState_def Let_def cloneState_id)
qed

lemma saveState_redo: "redoStack (saveState s stk) = []"
  by (simp add: saveState_def Let_def)

lemma undo_nonempty:
  "undoStack stk \<noteq> [] \<Longrightarrow>
   undo cur stk = (Some (last (undoStack stk)),
     stk\<lparr>redoStack := redoStack stk @ [cur], undoStack := butlast (undoStack stk)\<rparr>)"
  by (simp add: undo_def Let_def cloneState_id)

lemma redo_nonempty:
  "redoStack stk \<noteq> [] \<Longrightarrow>
   redo cur stk = (Some (last (redoStack stk)),
     stk\<lparr>undoStack := undoStack stk @ [cur], redoStack := butlast (redoStack stk)\<rparr>)"
  by (simp add: redo_def Let_def cloneState_id)

text \<open>
  C8. For a stack whose bound is at least one (the editor's is 50), whatever it holds:
  after \<open>saveState s0\<close>, \<open>undo\<close> called with the current state \<open>s1\<close> returns \<open>s0\<close>, and
  the \<open>redo\<close> that follows, called with the current state \<open>s0\<close>, returns \<open>s1\<close>.
\<close>

theorem undo_redo_law:
  assumes "0 < maxStackSize stk"
  shows "fst (undo s1 (saveState s0 stk)) = Some s0 \<and>
         fst (redo s0 (snd (undo s1 (saveState s0 stk)))) = Some s1"
proof -
  have top: "undoStack (saveState s0 stk) \<noteq> []" "last (undoStack (saveState s0 stk)) = s0"
    using saveState_top [OF assms, of s0] by simp_all
  show ?thesis
    by (simp add: undo_nonempty [OF top(1)] top(2) redo_nonempty saveState_redo)
qed

theorem undo_redo_law_witness:
  "0 < maxStackSize (newUndoRedoStack 50) \<and>
   fst (undo exampleSnapshot1 (saveState exampleSnapshot0 (newUndoRedoStack 50)))
     = Some exampleSnapshot0 \<and>
   fst (redo exampleSnapshot0
          (snd (undo exampleSnapshot1 (saveState exampleSnapshot0 (newUndoRedoStack 50)))))
     = Some exampleSnapshot1"
  using undo_redo_law [of "newUndoRedoStack 50" exampleSnapshot1 exampleSnapshot0]
  by (simp add: newUndoRedoStack_def)

section \<open>Properties: screen-to-image conversion\<close>

lemma js_round_int: "js_round (of_int n) = of_int n"
  by (simp add: js_round_def)

lemma js_round_near: "\<bar>js_round v - v\<bar> \<le> 1 / 2"
  unfolding js_round_def by linarith

lemma js_round_numeral: "js_round (numeral n) = numeral n" "js_round 0 = 0" "js_round 1 = 1"
  by (simp_all add: js_round_def)

lemma calculateImageDisplayBounds_unrotated:
  assumes "rotation p = 0"
  shows "calculateImageDisplayBounds p =
     \<lparr>displayedWidth = imageWidth p * scale p, displayedHeight = imageHeight p * scale p,
      displayedX = (displayWidth p - imageWidth p * scale p) / 2 + translateX p,
      displayedY = (displayHeight p - imageHeight p * scale p) / 2 + translateY p\<rparr>"
  using assms by (simp add: calculateImageDisplayBounds_def Let_def)

lemma roundtrip_rounded:
  assumes "rotation p = 0" "0 < scale p" "1 \<le> imageWidth p" "1 \<le> imageHeight p"
  shows "screenToImageCoordinates (displayedRect p) p =
     \<lparr>rect_x = 0, rect_y = 0,
      rect_width = js_round (imageWidth p), rect_height = js_round (imageHeight p)\<rparr>"
  using assms
  by (simp add: screenToImageCoordinates_def displayedRect_def
      calculateImageDisplayBounds_unrotated Let_def js_round_def)

text \<open>
  C1. With rotation 0, a positive scale, any display size and translation, and an image of
  at least one pixel each way: the screen rectangle that equals the displayed image bounds
  maps to x = 0, y = 0 and to a width and height within one half of the image's, and
  exactly the image's when these are whole numbers, as pixel dimensions are.
\<close>

theorem roundtrip_no_rotation:
  assumes "rotation p = 0" and "0 < scale p"
    and "1 \<le> imageWidth p" and "1 \<le> imageHeight p"
  shows "rect_x (screenToImageCoordinates (displayedRect p) p) = 0 \<and>
         rect_y (screenToImageCoordinates (displayedRect p) p) = 0 \<and>
         \<bar>rect_width (screenToImageCoordinates (displayedRect p) p) - imageWidth p\<bar> \<le> 1 / 2 \<and>
         \<bar>rect_height (screenToImageCoordinates (displayedRect p) p) - imageHeight p\<bar> \<le> 1 / 2 \<and>
         (imageWidth p \<in> \<int> \<longrightarrow>
            rect_width (screenToImageCoordinates (displayedRect p) p) = imageWidth p) \<and>
         (imageHeight p \<in> \<int> \<longrightarrow>
            rect_height (screenToImageCoordinates (displayedRect p) p) = imageHeight p)"
proof -
  have "\<bar>js_round (imageWidth p) - imageWidth p\<bar> \<le> 1 / 2"
    and "\<bar>js_round (imageHeight p) - imageHeight p\<bar> \<le> 1 / 2"
    by (rule js_round_near)+
  moreover have "js_round v = v" if "v \<in> \<int>" for v
    using that by (auto elim!: Ints_cases simp: js_round_int)
  ultimately show ?thesis
    by (simp add: roundtrip_rounded [OF assms])
qed

theorem roundtrip_no_rotation_witness:
  "screenToImageCoordinates
     (displayedRect \<lparr>imageWidth = 1000, imageHeight = 800, displayWidth = 400,
        displayHeight = 680, scale = 2 / 5, translateX = 50, translateY = - 30, rotation = 0\<rparr>)
     \<lparr>imageWidth = 1000, imageHeight = 800, displayWidth = 400,
        displayHeight = 680, scale = 2 / 5, translateX = 50, translateY = - 30, rotation = 0\<rparr>
   = \<lparr>rect_x = 0, rect_y = 0, rect_width = 1000, rect_height = 800\<rparr>"
  using roundtrip_no_rotation [of "\<lparr>imageWidth = 1000, imageHeight = 800, displayWidth = 400,
        displayHeight = 680, scale = 2 / 5, translateX = 50, translateY = - 30, rotation = 0\<rparr>"]
  by (simp add: Rect.equality)

section \<open>Properties: the two conversions compared\<close>

lemma Math_min4: "Math_min [a, b, c, d] = min a (min b (min c d))"
  by (simp add: Math_min_def)

lemma Math_max4: "Math_max [a, b, c, d] = max a (max b (max c d))"
  by (simp add: Math_max_def)

lemma rotateCorner_back_90:
  "rotateCorner (- 90 * pi / 180) cx cy \<lparr>pt_x = a, pt_y = b\<rparr> =
     \<lparr>pt_x = cx + (b - cy), pt_y = cy - (a - cx)\<rparr>"
  by (simp add: rotateCorner_def Let_def)

text \<open>
  C9, as the code has it. The two conversions return the same rectangle when the rotation
  is 0, for every image size, display size, crop rectangle, translation and positive
  scale. (\<open>calculateCropCoordinates\<close> centres the unrotated scaled image;
  \<open>calculateImageDisplayBounds\<close> centres its rotated bounding box; at rotation 0 the
  two are the same box.)
\<close>

theorem conversions_agree_unrotated:
  assumes "tf_rotation t = 0" and "0 < tf_scale t"
  shows "calculateCropCoordinates imageSize displaySize cropArea t =
         screenToImageCoordinates cropArea (paramsOf imageSize displaySize t)"
proof -
  have "rotation (paramsOf imageSize displaySize t) = 0"
    using assms by (simp add: paramsOf_def)
  from calculateImageDisplayBounds_unrotated [OF this]
  have b: "calculateImageDisplayBounds (paramsOf imageSize displaySize t) =
     \<lparr>displayedWidth = size_width imageSize * tf_scale t,
      displayedHeight = size_height imageSize * tf_scale t,
      displayedX =
        (size_width displaySize - size_width imageSize * tf_scale t) / 2 + tf_translateX t,
      displayedY =
        (size_height displaySize - size_height imageSize * tf_scale t) / 2 + tf_translateY t\<rparr>"
    by (simp add: paramsOf_def)
  show ?thesis
    unfolding calculateCropCoordinates_def screenToImageCoordinates_def b
    by (simp only: Let_def paramsOf_def ImageDisplayParams.select_convs
        DisplayBounds.select_convs)
qed

theorem conversions_agree_unrotated_witness:
  "calculateCropCoordinates \<lparr>size_width = 100, size_height = 200\<rparr> \<lparr>size_width = 400, size_height = 400\<rparr>
     \<lparr>rect_x = 150, rect_y = 150, rect_width = 50, rect_height = 50\<rparr>
     \<lparr>tf_rotation = 0, tf_scale = 1, tf_translateX = 0, tf_translateY = 0\<rparr> =
   screenToImageCoordinates \<lparr>rect_x = 150, rect_y = 150, rect_width = 50, rect_height = 50\<rparr>
     (paramsOf \<lparr>size_width = 100, size_height = 200\<rparr> \<lparr>size_width = 400, size_height = 400\<rparr>
        \<lparr>tf_rotation = 0, tf_scale = 1, tf_translateX = 0, tf_translateY = 0\<rparr>)
   \<and> calculateCropCoordinates \<lparr>size_width = 100, size_height = 200\<rparr> \<lparr>size_width = 400, size_height = 400\<rparr>
     \<lparr>rect_x = 150, rect_y = 150, rect_width = 50, rect_height = 50\<rparr>
     \<lparr>tf_rotation = 0, tf_scale = 2, tf_translateX = 5, tf_translateY = 7\<rparr> =
   screenToImageCoordinates \<lparr>rect_x = 150, rect_y = 150, rect_width = 50, rect_height = 50\<rparr>
     (paramsOf \<lparr>size_width = 100, size_height = 200\<rparr> \<lparr>size_width = 400, size_height = 400\<rparr>
        \<lparr>tf_rotation = 0, tf_scale = 2, tf_translateX = 5, tf_translateY = 7\<rparr>)"
  using
    conversions_agree_unrotated [where t = "\<lparr>tf_rotation = 0, tf_scale = 1, tf_translateX = 0, tf_translateY = 0\<rparr>"
      and imageSize = "\<lparr>size_width = 100, size_height = 200\<rparr>" and displaySize = "\<lparr>size_width = 400, size_height = 400\<rparr>"
      and cropArea = "\<lparr>rect_x = 150, rect_y = 150, rect_width = 50, rect_height = 50\<rparr>"]
    conversions_agree_unrotated [where t = "\<lparr>tf_rotation = 0, tf_scale = 2, tf_translateX = 5, tf_translateY = 7\<rparr>"
      and imageSize = "\<lparr>size_width = 100, size_height = 200\<rparr>" and displaySize = "\<lparr>size_width = 400, size_height = 400\<rparr>"
      and cropArea = "\<lparr>rect_x = 150, rect_y = 150, rect_width = 50, rect_height = 50\<rparr>"]
  by simp

lemma calculateCropCoordinates_quarter_turn_example:
  "calculateCropCoordinates 
       \<lparr>size_width = 100, size_height = 200\<rparr> \<lparr>size_width = 400, size_height = 400\<rparr>
       \<lparr>rect_x = 150, rect_y = 150, rect_width = 50, rect_height = 50\<rparr>
       \<lparr>tf_rotation = 90, tf_scale = 1, tf_translateX = 0, tf_translateY = 0\<rparr> =
     \<lparr>rect_x = 0, rect_y = 100, rect_width = 50, rect_height = 50\<rparr>"
  apply (simp only: calculateCropCoordinates_def Let_def
      Size.select_convs Rect.select_convs TransformParams.select_convs list.map
      rotateCorner_back_90 Math_min4 Math_max4 Point.select_convs)
  apply (simp add: js_round_numeral)
  done

lemma calculateImageDisplayBounds_quarter_turn_example:
  "calculateImageDisplayBounds 
       (paramsOf \<lparr>size_width = 100, size_height = 200\<rparr> \<lparr>size_width = 400, size_height = 400\<rparr>
          \<lparr>tf_rotation = 90, tf_scale = 1, tf_translateX = 0, tf_translateY = 0\<rparr>) =
     \<lparr>displayedWidth = 200, displayedHeight = 100, displayedX = 100, displayedY = 150\<rparr>"
  by (simp add: calculateImageDisplayBounds_def paramsOf_def Let_def)

lemma screenToImageCoordinates_quarter_turn_example:
  "screenToImageCoordinates \<lparr>rect_x = 150, rect_y = 150, rect_width = 50, rect_height = 50\<rparr> 
       (paramsOf \<lparr>size_width = 100, size_height = 200\<rparr> \<lparr>size_width = 400, size_height = 400\<rparr>
          \<lparr>tf_rotation = 90, tf_scale = 1, tf_translateX = 0, tf_translateY = 0\<rparr>) =
     \<lparr>rect_x = 0, rect_y = 50, rect_width = 50, rect_height = 50\<rparr>"
  apply (simp only: screenToImageCoordinates_def
      calculateImageDisplayBounds_quarter_turn_example Let_def DisplayBounds.select_convs)
  apply (simp only: paramsOf_def
      Size.select_convs Rect.select_convs TransformParams.select_convs
      ImageDisplayParams.select_convs list.map rotateCorner_back_90 Math_min4 Math_max4
      Point.select_convs)
  apply (simp add: js_round_numeral)
  done

text \<open>
  C9 as stated fails at a rotation of 90 degrees: for a 100 by 200 image in a 400 by 400
  display, at scale 1 and without translation, the screen rectangle (150, 150, 50, 50)
  maps to (0, 100, 50, 50) by \<open>calculateCropCoordinates\<close> and to (0, 50, 50, 50) by
  \<open>screenToImageCoordinates\<close>.
\<close>

theorem conversions_differ_counterexample:
  "calculateCropCoordinates 
       \<lparr>size_width = 100, size_height = 200\<rparr> \<lparr>size_width = 400, size_height = 400\<rparr>
       \<lparr>rect_x = 150, rect_y = 150, rect_width = 50, rect_height = 50\<rparr>
       \<lparr>tf_rotation = 90, tf_scale = 1, tf_translateX = 0, tf_translateY = 0\<rparr> =
     \<lparr>rect_x = 0, rect_y = 100, rect_width = 50, rect_height = 50\<rparr> \<and>
   screenToImageCoordinates \<lparr>rect_x = 150, rect_y = 150, rect_width = 50, rect_height = 50\<rparr> 
       (paramsOf \<lparr>size_width = 100, size_height = 200\<rparr> \<lparr>size_width = 400, size_height = 400\<rparr>
          \<lparr>tf_rotation = 90, tf_scale = 1, tf_translateX = 0, tf_translateY = 0\<rparr>) =
     \<lparr>rect_x = 0, rect_y = 50, rect_width = 50, rect_height = 50\<rparr> \<and>
   calculateCropCoordinates 
       \<lparr>size_width = 100, size_height = 200\<rparr> \<lparr>size_width = 400, size_height = 400\<rparr>
       \<lparr>rect_x = 150, rect_y = 150, rect_width = 50, rect_height = 50\<rparr>
       \<lparr>tf_rotation = 90, tf_scale = 1, tf_translateX = 0, tf_translateY = 0\<rparr> \<noteq>
     screenToImageCoordinates \<lparr>rect_x = 150, rect_y = 150, rect_width = 50, rect_height = 50\<rparr> 
       (paramsOf \<lparr>size_width = 100, size_height = 200\<rparr> \<lparr>size_width = 400, size_height = 400\<rparr>
          \<lparr>tf_rotation = 90, tf_scale = 1, tf_translateX = 0, tf_translateY = 0\<rparr>)"
  by (simp add: calculateCropCoordinates_quarter_turn_example
      screenToImageCoordinates_quarter_turn_example)

section \<open>Properties: the example states\<close>

lemma exampleEditor_values:
  "ed_scale exampleEditor = 8 / 25"
  "ed_baseScale exampleEditor = 8 / 25"
  "ed_cropWidth exampleEditor = 320"
  "ed_cropHeight exampleEditor = 320"
  "ed_cropX exampleEditor = 40"
  "ed_cropY exampleEditor = 180"
  "ed_imageSize exampleEditor = \<lparr>size_width = 1000, size_height = 800\<rparr>"
  "ed_aspectRatio exampleEditor = AR_free"
  "ed_imageUri exampleEditor = Some ''file:///photos/cat.jpg''"
  "ed_originalImageUri exampleEditor = Some ''file:///photos/cat.jpg''"
  by (simp_all add: exampleEditor_def loadImage_def initialEditor_def exampleWindow_def
      CROP_SIZE_def EDITOR_HEIGHT_def Let_def)

section \<open>Properties: corner resize with a locked ratio\<close>

text \<open>
  C2, as the code has it. With a locked ratio the update compares
  \<open>absDeltaX > absDeltaY\<close>. Whenever that is false, so on every tie
  \<open>|deltaX| = |deltaY|\<close> and whenever the vertical drag is the larger, it takes the
  height-primary branch: the new height is the one the drag gives, and the new width is
  that height times the target ratio. Only when \<open>|deltaX| > |deltaY|\<close> strictly does
  it take the width-primary branch: the new width is the one the drag gives, and the new
  height is that width divided by the target ratio. This holds for every handle, base
  rectangle and locked ratio.
\<close>

theorem locked_resize_primary_dimension:
  assumes "aspectRatio \<noteq> AR_free"
  shows "(\<not> \<bar>deltaX\<bar> > \<bar>deltaY\<bar> \<longrightarrow>
            rect_height (cornerResize handle aspectRatio base deltaX deltaY) =
              (if handle = topLeft \<or> handle = topRight
               then rect_height base - deltaY else rect_height base + deltaY) \<and>
            rect_width (cornerResize handle aspectRatio base deltaX deltaY) =
              rect_height (cornerResize handle aspectRatio base deltaX deltaY)
                * targetAspectOf aspectRatio) \<and>
         (\<bar>deltaX\<bar> > \<bar>deltaY\<bar> \<longrightarrow>
            rect_width (cornerResize handle aspectRatio base deltaX deltaY) =
              (if handle = topLeft \<or> handle = bottomLeft
               then rect_width base - deltaX else rect_width base + deltaX) \<and>
            rect_height (cornerResize handle aspectRatio base deltaX deltaY) =
              rect_width (cornerResize handle aspectRatio base deltaX deltaY)
                / targetAspectOf aspectRatio)"
  using assms by (cases handle) (simp_all add: cornerResize_def Let_def)

theorem locked_resize_primary_dimension_witness:
  "AR_16_9 \<noteq> AR_free \<and> \<not> \<bar>9 :: real\<bar> > \<bar>- 9\<bar> \<and> \<not> \<bar>1 :: real\<bar> > \<bar>45\<bar> \<and>
   \<bar>16 :: real\<bar> > \<bar>- 2\<bar> \<and>
   cornerResize bottomRight AR_16_9
     \<lparr>rect_x = 20, rect_y = 100, rect_width = 320, rect_height = 180\<rparr> 9 (- 9) =
   \<lparr>rect_x = 20, rect_y = 100, rect_width = 304, rect_height = 171\<rparr> \<and>
   cornerResize bottomRight AR_16_9
     \<lparr>rect_x = 20, rect_y = 100, rect_width = 320, rect_height = 180\<rparr> 1 45 =
   \<lparr>rect_x = 20, rect_y = 100, rect_width = 400, rect_height = 225\<rparr> \<and>
   cornerResize topLeft AR_16_9
     \<lparr>rect_x = 20, rect_y = 100, rect_width = 320, rect_height = 180\<rparr> 16 (- 2) =
   \<lparr>rect_x = 36, rect_y = 109, rect_width = 304, rect_height = 171\<rparr>"
  using
    locked_resize_primary_dimension [where aspectRatio = AR_16_9 and handle = bottomRight
      and deltaX = 9 and deltaY = "- 9"
      and base = "\<lparr>rect_x = 20, rect_y = 100, rect_width = 320, rect_height = 180\<rparr>"]
    locked_resize_primary_dimension [where aspectRatio = AR_16_9 and handle = bottomRight
      and deltaX = 1 and deltaY = 45
      and base = "\<lparr>rect_x = 20, rect_y = 100, rect_width = 320, rect_height = 180\<rparr>"]
    locked_resize_primary_dimension [where aspectRatio = AR_16_9 and handle = topLeft
      and deltaX = 16 and deltaY = "- 2"
      and base = "\<lparr>rect_x = 20, rect_y = 100, rect_width = 320, rect_height = 180\<rparr>"]
  by (simp add: cornerResize_def Let_def targetAspectOf_def)

text \<open>
  C2 as stated fails: the bottom-right handle of the 16:9 rectangle (20, 100, 320, 180),
  dragged by (9, -9), gets the width 304 = 171 * 16/9, not the drag-derived width 329, and
  its height 171 is not 329 / (16/9).
\<close>

theorem tie_width_primary_counterexample:
  "rect_width (cornerResize bottomRight AR_16_9
       \<lparr>rect_x = 20, rect_y = 100, rect_width = 320, rect_height = 180\<rparr> 9 (- 9)) = 304 \<and>
   rect_width (cornerResize bottomRight AR_16_9
       \<lparr>rect_x = 20, rect_y = 100, rect_width = 320, rect_height = 180\<rparr> 9 (- 9)) \<noteq> 320 + 9 \<and>
   rect_height (cornerResize bottomRight AR_16_9
       \<lparr>rect_x = 20, rect_y = 100, rect_width = 320, rect_height = 180\<rparr> 9 (- 9)) \<noteq>
     (320 + 9) / targetAspectOf AR_16_9"
  by (simp add: cornerResize_def Let_def targetAspectOf_def)

text \<open>
  Before the clamp, the rectangle that \<open>onUpdate\<close> computes keeps the opposite corner
  where the base rectangle has it, for every handle, ratio and drag.
\<close>

lemma cornerResize_keeps_opposite_corner:
  "oppositeCorner handle (cornerResize handle aspectRatio base deltaX deltaY) =
   oppositeCorner handle base"
  by (cases handle) (simp_all add: cornerResize_def oppositeCorner_def Let_def)

lemma clampCropToBounds_example:
  "clampCropToBounds exampleWindow 290 430 70 70 =
     \<lparr>rect_x = 290, rect_y = 430, rect_width = 100, rect_height = 100\<rparr>"
  by (simp add: clampCropToBounds_def exampleWindow_def EDITOR_HEIGHT_def MIN_CROP_SIZE_def
      Let_def)

text \<open>
  C5 fails on the code. In the example editor with the ratio 1:1 the crop rectangle is
  (40, 180, 320, 320), so the corner opposite the top-left handle is at (360, 500). One
  session on that handle with the single update (250, 0) computes (290, 430, 70, 70);
  \<open>clampCropToBounds\<close> raises the size to the minimum of 100 and leaves the position, and
  the opposite corner ends at (390, 530), 30 pixels away on each axis.
\<close>

theorem corner_session_moves_opposite_corner:
  "oppositeCorner topLeft (cropRect (exampleEditor\<lparr>ed_aspectRatio := AR_1_1\<rparr>)) =
     \<lparr>pt_x = 360, pt_y = 500\<rparr> \<and>
   oppositeCorner topLeft
     (cropRect (cornerSession exampleWindow (Some topLeft) [(250, 0)]
        (exampleEditor\<lparr>ed_aspectRatio := AR_1_1\<rparr>))) =
     \<lparr>pt_x = 390, pt_y = 530\<rparr>"
  by (simp add: cornerSession_def cornerOnStart_def cornerOnUpdate_def cornerOnEnd_def
      cornerResize_def baseCropRect_def cropRect_def oppositeCorner_def targetAspectOf_def
      exampleEditor_values clampCropToBounds_example Let_def)

section \<open>Properties: the scale after a pinch update\<close>

lemma gestureRun_snoc:
  "gestureRun w ed (evs @ [ev]) = gestureStep w (gestureRun w ed evs) ev"
  by (simp add: gestureRun_def)

lemma pinchOnUpdate_bounds:
  "max (ed_cropWidth ed / size_width (ed_imageSize ed))
       (ed_cropHeight ed / size_height (ed_imageSize ed))
     \<le> ed_scale (pinchOnUpdate e ed) \<and>
   ed_scale (pinchOnUpdate e ed)
     \<le> max (max (ed_cropWidth ed / size_width (ed_imageSize ed))
                 (ed_cropHeight ed / size_height (ed_imageSize ed))) 3"
  by (simp add: pinchOnUpdate_def Let_def)

lemma pinchOnUpdate_frame:
  "ed_cropWidth (pinchOnUpdate e ed) = ed_cropWidth ed"
  "ed_cropHeight (pinchOnUpdate e ed) = ed_cropHeight ed"
  "ed_imageSize (pinchOnUpdate e ed) = ed_imageSize ed"
  by (simp_all add: pinchOnUpdate_def Let_def)

lemma minScaleOf_pinchOnUpdate:
  "minScaleOf (pinchOnUpdate e ed) =
     max (ed_cropWidth ed / size_width (ed_imageSize ed))
         (ed_cropHeight ed / size_height (ed_imageSize ed))"
  by (simp add: minScaleOf_def calculateMinScale_def pinchOnUpdate_frame Let_def)

text \<open>
  C6, as the code has it. After any sequence of gesture callbacks that ends with a pinch
  update, on an image of positive dimensions, the scale is at least the minimum scale of
  that moment and at most the larger of that minimum and 3; it is at most 3 whenever the
  minimum scale is.
\<close>

theorem pinch_scale_bounds:
  assumes "ed' = gestureRun w ed (evs @ [PinchUpdate e])"
    and "0 < size_width (ed_imageSize ed')" and "0 < size_height (ed_imageSize ed')"
  shows "minScaleOf ed' \<le> ed_scale ed' \<and> ed_scale ed' \<le> max (minScaleOf ed') 3 \<and>
         (minScaleOf ed' \<le> 3 \<longrightarrow> ed_scale ed' \<le> 3)"
proof -
  have e: "ed' = pinchOnUpdate e (gestureRun w ed evs)"
    using assms(1) by (simp add: gestureRun_snoc)
  from pinchOnUpdate_bounds [of "gestureRun w ed evs" e] show ?thesis
    unfolding e minScaleOf_pinchOnUpdate by auto
qed

theorem pinch_scale_bounds_witness:
  "0 < size_width (ed_imageSize
         (gestureRun exampleWindow exampleEditor ([PinchStart] @ [PinchUpdate 2]))) \<and>
   0 < size_height (ed_imageSize
         (gestureRun exampleWindow exampleEditor ([PinchStart] @ [PinchUpdate 2]))) \<and>
   minScaleOf (gestureRun exampleWindow exampleEditor ([PinchStart] @ [PinchUpdate 2])) = 2 / 5 \<and>
   ed_scale (gestureRun exampleWindow exampleEditor ([PinchStart] @ [PinchUpdate 2])) = 16 / 25 \<and>
   minScaleOf (gestureRun exampleWindow exampleEditor ([PinchStart] @ [PinchUpdate 2]))
     \<le> ed_scale (gestureRun exampleWindow exampleEditor ([PinchStart] @ [PinchUpdate 2])) \<and>
   ed_scale (gestureRun exampleWindow exampleEditor ([PinchStart] @ [PinchUpdate 2])) \<le> 3"
  using pinch_scale_bounds [of
     "gestureRun exampleWindow exampleEditor ([PinchStart] @ [PinchUpdate 2])"
     exampleWindow exampleEditor "[PinchStart]" 2]
  by (simp add: gestureRun_def pinchOnStart_def pinchOnUpdate_def minScaleOf_def
      calculateMinScale_def exampleEditor_values Let_def)

text \<open>
  C6 as stated fails for an image smaller than a third of the crop rectangle: with the 50
  by 50 image the minimum scale is 320 / 50, and the pinch update leaves the scale at
  32 / 5, above 3.
\<close>

theorem pinch_scale_above_three_counterexample:
  "ed_scale (gestureRun exampleWindow smallImageEditor [PinchStart, PinchUpdate 1]) = 32 / 5 \<and>
   \<not> ed_scale (gestureRun exampleWindow smallImageEditor [PinchStart, PinchUpdate 1]) \<le> 3"
  by (simp add: gestureRun_def pinchOnStart_def pinchOnUpdate_def smallImageEditor_def
      loadImage_def initialEditor_def exampleWindow_def CROP_SIZE_def EDITOR_HEIGHT_def Let_def)

section \<open>Properties: saving\<close>

lemma js_rem_example: "js_rem (js_rem 0 360 + 360) 360 = 0"
  by (simp add: js_rem_def)

lemma handleSave_example:
  "handleSave exampleSaveEnv exampleEditor =
     Saved
       \<lparr>mf_uri = ''file:///data/files/images/edited/edited_1_cat.jpg'',
        mf_name = ''edited_1_cat.jpg'', mf_type = ''image/jpeg'', mf_size = 2048,
        mf_editMetadata =
          \<lparr>md_rotation = 0, md_scale = 8 / 25, md_translateX = 0, md_translateY = 0,
           md_crop = \<lparr>rect_x = 40, rect_y = 180, rect_width = 320, rect_height = 320\<rparr>,
           md_aspectRatio = AR_free, md_brightness = 0, md_contrast = 0, md_saturation = 0,
           md_drawings = None, md_textStickers = None, md_exifOrientation = 1\<rparr>\<rparr>"
  by (simp add: handleSave_def exampleSaveEnv_def exampleEditor_def loadImage_def
      initialEditor_def exampleWindow_def CROP_SIZE_def EDITOR_HEIGHT_def Let_def js_rem_example
      getRotationForOrientation_def ExifOrientation_defs)

text \<open>
  C3, as the code has it. \<open>handleSave\<close> does not look at the scale: whether it returns
  at once, saves, or fails is the same for every value of the scale, zero and negative
  ones included, and a save records the scale as it is in the edit metadata. \<open>handleSave\<close>
  calls neither \<open>screenToImageCoordinates\<close> nor \<open>calculateCropCoordinates\<close>, so it
  divides by the scale nowhere.
\<close>

theorem handleSave_scale_only_recorded:
  "handleSave env (ed\<lparr>ed_scale := s\<rparr>) =
     (case handleSave env ed of
        Saved m \<Rightarrow> Saved (m\<lparr>mf_editMetadata := (mf_editMetadata m)\<lparr>md_scale := s\<rparr>\<rparr>)
      | NotStarted \<Rightarrow> NotStarted
      | FailedToSave \<Rightarrow> FailedToSave)"
  by (simp add: handleSave_def Let_def split: option.splits)

theorem handleSave_scale_only_recorded_witness:
  "handleSave exampleSaveEnv (exampleEditor\<lparr>ed_scale := - 1\<rparr>) =
     Saved
       \<lparr>mf_uri = ''file:///data/files/images/edited/edited_1_cat.jpg'',
        mf_name = ''edited_1_cat.jpg'', mf_type = ''image/jpeg'', mf_size = 2048,
        mf_editMetadata =
          \<lparr>md_rotation = 0, md_scale = - 1, md_translateX = 0, md_translateY = 0,
           md_crop = \<lparr>rect_x = 40, rect_y = 180, rect_width = 320, rect_height = 320\<rparr>,
           md_aspectRatio = AR_free, md_brightness = 0, md_contrast = 0, md_saturation = 0,
           md_drawings = None, md_textStickers = None, md_exifOrientation = 1\<rparr>\<rparr>"
  using handleSave_scale_only_recorded [where env = exampleSaveEnv and ed = exampleEditor and s = "- 1"]
  by (simp add: handleSave_example)

text \<open>
  C3 as stated fails: with the scale at 0, on a platform where the capture and the file
  operations succeed, the save neither ends in the failure branch nor is it refused.
\<close>

theorem handleSave_zero_scale_counterexample:
  "ed_scale (exampleEditor\<lparr>ed_scale := 0\<rparr>) \<le> 0 \<and>
   handleSave exampleSaveEnv (exampleEditor\<lparr>ed_scale := 0\<rparr>) \<noteq> FailedToSave \<and>
   handleSave exampleSaveEnv (exampleEditor\<lparr>ed_scale := 0\<rparr>) \<noteq> NotStarted"
  by (simp add: handleSave_def exampleSaveEnv_def exampleEditor_values Let_def)

section \<open>Properties: what undo and redo restore\<close>

lemma handleUndo_cases:
  "handleUndo ed = ed \<or>
   (\<exists>st stk. handleUndo ed = applyEditorState st (ed\<lparr>ed_undoRedoStack := stk\<rparr>))"
  by (auto simp add: handleUndo_def undo_def Let_def)

lemma handleRedo_cases:
  "handleRedo ed = ed \<or>
   (\<exists>st stk. handleRedo ed = applyEditorState st (ed\<lparr>ed_undoRedoStack := stk\<rparr>))"
  by (auto simp add: handleRedo_def redo_def Let_def)

text \<open>
  C10. \<open>applyEditorState\<close> leaves the position of the crop rectangle, the aspect ratio and
  the mode as they were, and with them every other cell of the editor that the snapshot
  does not record; the cells it writes are those of the snapshot, so that reading the
  state back gives the snapshot, and the animated copy \<open>rotationValue\<close> of the rotation.
  The same four cells survive \<open>handleUndo\<close> and \<open>handleRedo\<close>.
\<close>

theorem applyEditorState_frame:
  "ed_cropX (applyEditorState st ed) = ed_cropX ed \<and>
   ed_cropY (applyEditorState st ed) = ed_cropY ed \<and>
   ed_aspectRatio (applyEditorState st ed) = ed_aspectRatio ed \<and>
   ed_mode (applyEditorState st ed) = ed_mode ed \<and>
   ed_imageUri (applyEditorState st ed) = ed_imageUri ed \<and>
   ed_originalImageUri (applyEditorState st ed) = ed_originalImageUri ed \<and>
   ed_imageSize (applyEditorState st ed) = ed_imageSize ed \<and>
   ed_previewSize (applyEditorState st ed) = ed_previewSize ed \<and>
   ed_previewScale (applyEditorState st ed) = ed_previewScale ed \<and>
   ed_activeHandle (applyEditorState st ed) = ed_activeHandle ed \<and>
   ed_drawColor (applyEditorState st ed) = ed_drawColor ed \<and>
   ed_drawStrokeWidth (applyEditorState st ed) = ed_drawStrokeWidth ed \<and>
   ed_selectedStickerId (applyEditorState st ed) = ed_selectedStickerId ed \<and>
   ed_exifOrientation (applyEditorState st ed) = ed_exifOrientation ed \<and>
   ed_undoRedoStack (applyEditorState st ed) = ed_undoRedoStack ed \<and>
   ed_baseScale (applyEditorState st ed) = ed_baseScale ed \<and>
   ed_baseTranslateX (applyEditorState st ed) = ed_baseTranslateX ed \<and>
   ed_baseTranslateY (applyEditorState st ed) = ed_baseTranslateY ed \<and>
   ed_isAnimating (applyEditorState st ed) = ed_isAnimating ed \<and>
   ed_baseCropX (applyEditorState st ed) = ed_baseCropX ed \<and>
   ed_baseCropY (applyEditorState st ed) = ed_baseCropY ed \<and>
   ed_baseCropWidth (applyEditorState st ed) = ed_baseCropWidth ed \<and>
   ed_baseCropHeight (applyEditorState st ed) = ed_baseCropHeight ed \<and>
   ed_initialCropWidth (applyEditorState st ed) = ed_initialCropWidth ed \<and>
   ed_initialCropHeight (applyEditorState st ed) = ed_initialCropHeight ed \<and>
   ed_initialScale (applyEditorState st ed) = ed_initialScale ed \<and>
   ed_initialTranslateX (applyEditorState st ed) = ed_initialTranslateX ed \<and>
   ed_initialTranslateY (applyEditorState st ed) = ed_initialTranslateY ed \<and>
   getCurrentEditorState (applyEditorState st ed) = st \<and>
   ed_rotationValue (applyEditorState st ed) = es_rotation st \<and>
   ed_cropX (handleUndo ed) = ed_cropX ed \<and>
   ed_cropY (handleUndo ed) = ed_cropY ed \<and>
   ed_aspectRatio (handleUndo ed) = ed_aspectRatio ed \<and>
   ed_mode (handleUndo ed) = ed_mode ed \<and>
   ed_cropX (handleRedo ed) = ed_cropX ed \<and>
   ed_cropY (handleRedo ed) = ed_cropY ed \<and>
   ed_aspectRatio (handleRedo ed) = ed_aspectRatio ed \<and>
   ed_mode (handleRedo ed) = ed_mode ed"
proof -
  have undo: "ed_cropX (handleUndo ed) = ed_cropX ed \<and> ed_cropY (handleUndo ed) = ed_cropY ed \<and>
     ed_aspectRatio (handleUndo ed) = ed_aspectRatio ed \<and> ed_mode (handleUndo ed) = ed_mode ed"
    using handleUndo_cases [of ed] by (auto simp add: applyEditorState_def)
  have redo: "ed_cropX (handleRedo ed) = ed_cropX ed \<and> ed_cropY (handleRedo ed) = ed_cropY ed \<and>
     ed_aspectRatio (handleRedo ed) = ed_aspectRatio ed \<and> ed_mode (handleRedo ed) = ed_mode ed"
    using handleRedo_cases [of ed] by (auto simp add: applyEditorState_def)
  have snap: "getCurrentEditorState (applyEditorState st ed) = st"
    by (simp add: applyEditorState_def getCurrentEditorState_def)
  show ?thesis
    using undo redo snap by (simp add: applyEditorState_def)
qed

theorem applyEditorState_frame_witness:
  "ed_cropX (applyEditorState exampleSnapshot1 exampleEditor) = 40 \<and>
   ed_cropY (applyEditorState exampleSnapshot1 exampleEditor) = 180 \<and>
   ed_aspectRatio (applyEditorState exampleSnapshot1 exampleEditor) = AR_free \<and>
   ed_mode (applyEditorState exampleSnapshot1 exampleEditor) = ed_mode exampleEditor \<and>
   getCurrentEditorState (applyEditorState exampleSnapshot1 exampleEditor) = exampleSnapshot1"
  using applyEditorState_frame [of exampleSnapshot1 exampleEditor]
  by (simp add: exampleEditor_values)

end
